theory Spec2Isabelle
  imports Main "HOL-Library.Sublist"
begin

section \<open>The TDLC barcode and QR label script\<close>

text \<open>
  The program is \<^verbatim>\<open>src/utils/barcode_qr/tdlc_barcode_qr_python.py\<close>:
  \<^verbatim>\<open>
  import qrcode
  import barcode
  from barcode.writer import ImageWriter

  # QR code for order
  img = qrcode.make('https://www.thednalabstore.com/order/ORD-2025-001')
  img.save('qr.png')

  # Barcode for order+SKU
  Code128 = barcode.get_barcode_class('code128')
  code = Code128('ORD-2025-001|TS-001', writer=ImageWriter())
  code.save('barcode')
  \<close>
  It has no function, no branch, no loop and no exception handler: nine statements and
  calls run one after the other, and the first one that raises ends the run.  The two
  imaging libraries and the file system are not part of the repository.  They are the
  environment of the script, a parameter of the model; whatever is proved holds for
  every environment, or for every environment that meets a stated contract.
\<close>

subsection \<open>Data\<close>

type_synonym path = string

text \<open>What a statement can raise.  The script never inspects an exception, so only the
  cause matters: an import that finds no module, an encoder that rejects its payload,
  a path that cannot be written, anything else a library raises.\<close>

datatype failure =
    MissingLibrary string
  | Unencodable string
  | NotWritable path
  | LibraryFailure string

datatype 'a result = Returned 'a | Raised failure

text \<open>The calls the script makes into its environment, with the arguments it passes.\<close>

datatype call =
    Import string
  | QrcodeMake string
  | ImgSave path
  | GetBarcodeClass string
  | NewImageWriter
  | NewBarcode string
  | CodeSave path

text \<open>
  The environment.  \<open>'img\<close> is the content of an image file, \<open>'wr\<close> a writer
  object, \<open>'code\<close> a barcode object.  A Python class is its own constructor, so
  \<open>get_barcode_class\<close> returns a function of the payload and the writer.
  \<open>code_render\<close> is what \<^verbatim>\<open>save\<close> of a barcode object asks of its writer: the
  suffix appended to the base path and the image to be stored.
\<close>

record ('img, 'wr, 'code) env =
  importable :: "string \<Rightarrow> bool"
  qrcode_make :: "string \<Rightarrow> failure + 'img"
  get_barcode_class :: "string \<Rightarrow> failure + (string \<Rightarrow> 'wr \<Rightarrow> failure + 'code)"
  image_writer :: "failure + 'wr"
  code_render :: "'code \<Rightarrow> failure + string \<times> 'img"
  writable :: "path \<Rightarrow> bool"

text \<open>The state a run threads through: the files on disk and the log of calls made.\<close>

record 'img state =
  files :: "path \<rightharpoonup> 'img"
  calls :: "call list"

subsection \<open>Statements\<close>

definition log :: "call \<Rightarrow> 'img state \<Rightarrow> 'img state" where
  "log c s = s\<lparr>calls := calls s @ [c]\<rparr>"

text \<open>Sequencing of two statements.  Python has no other way to continue after a
  statement that raised than a handler, and the script has none.\<close>

definition then_do ::
  "('s \<Rightarrow> 'a result \<times> 's) \<Rightarrow> ('a \<Rightarrow> 's \<Rightarrow> 'b result \<times> 's) \<Rightarrow> 's \<Rightarrow> 'b result \<times> 's" where
  "then_do m f s = (case m s of (Returned a, s') \<Rightarrow> f a s' | (Raised e, s') \<Rightarrow> (Raised e, s'))"

definition lib_call :: "call \<Rightarrow> failure + 'a \<Rightarrow> 'img state \<Rightarrow> 'a result \<times> 'img state" where
  "lib_call c r s = (case r of Inl e \<Rightarrow> (Raised e, log c s) | Inr v \<Rightarrow> (Returned v, log c s))"

definition import_module ::
  "('img, 'wr, 'code) env \<Rightarrow> string \<Rightarrow> 'img state \<Rightarrow> unit result \<times> 'img state" where
  "import_module E m =
     lib_call (Import m) (if importable E m then Inr () else Inl (MissingLibrary m))"

definition write_file ::
  "('img, 'wr, 'code) env \<Rightarrow> path \<Rightarrow> 'img \<Rightarrow> 'img state \<Rightarrow> unit result \<times> 'img state" where
  \<comment> \<open>Modelled from the spec: the file system is missing from the sources.  ``Side effect:
      filesystem write, overwriting any existing file at that path''; it ``fails if the
      destination path is not writable''.\<close>
  "write_file E p d s =
     (if writable E p then (Returned (), s\<lparr>files := (files s)(p \<mapsto> d)\<rparr>)
      else (Raised (NotWritable p), s))"

definition img_save ::
  "('img, 'wr, 'code) env \<Rightarrow> 'img \<Rightarrow> path \<Rightarrow> 'img state \<Rightarrow> unit result \<times> 'img state" where
  "img_save E img p = then_do (lib_call (ImgSave p) (Inr ())) (\<lambda>_. write_file E p img)"

definition code_save ::
  "('img, 'wr, 'code) env \<Rightarrow> 'code \<Rightarrow> path \<Rightarrow> 'img state \<Rightarrow> path result \<times> 'img state" where
  \<comment> \<open>Modelled from the spec: the barcode library is missing from the sources.  \<^verbatim>\<open>save\<close>
      ``writes a raster barcode image file (extension appended by the library) to a fixed
      base path'' and returns the name of the file.\<close>
  "code_save E code base =
     then_do (lib_call (CodeSave base) (code_render E code)) (\<lambda>(ext, img).
     then_do (write_file E (base @ ext) img) (\<lambda>_ s. (Returned (base @ ext), s)))"

subsection \<open>The script\<close>

definition qr_url :: string where
  "qr_url = ''https://www.thednalabstore.com/order/ORD-2025-001''"

definition barcode_payload :: string where
  "barcode_payload = ''ORD-2025-001|TS-001''"

text \<open>Lines 10 and 11, with the literal of line 10 as the argument.\<close>

definition generate_qr ::
  "('img, 'wr, 'code) env \<Rightarrow> string \<Rightarrow> 'img state \<Rightarrow> unit result \<times> 'img state" where
  "generate_qr E url =
     then_do (lib_call (QrcodeMake url) (qrcode_make E url)) (\<lambda>img.
     img_save E img ''qr.png'')"

text \<open>Lines 14 to 16, with the literal of line 15 as the argument.  Python evaluates the
  arguments of a call before it calls: the writer is made before the barcode object.\<close>

definition generate_barcode ::
  "('img, 'wr, 'code) env \<Rightarrow> string \<Rightarrow> 'img state \<Rightarrow> path result \<times> 'img state" where
  "generate_barcode E payload =
     then_do (lib_call (GetBarcodeClass ''code128'') (get_barcode_class E ''code128'')) (\<lambda>Code128.
     then_do (lib_call NewImageWriter (image_writer E)) (\<lambda>w.
     then_do (lib_call (NewBarcode payload) (Code128 payload w)) (\<lambda>code.
     code_save E code ''barcode'')))"

definition script :: "('img, 'wr, 'code) env \<Rightarrow> 'img state \<Rightarrow> unit result \<times> 'img state" where
  "script E =
     then_do (import_module E ''qrcode'') (\<lambda>_.
     then_do (import_module E ''barcode'') (\<lambda>_.
     then_do (import_module E ''barcode.writer'') (\<lambda>_.
     then_do (generate_qr E qr_url) (\<lambda>_.
     then_do (generate_barcode E barcode_payload) (\<lambda>_ s. (Returned (), s))))))"

text \<open>A run of the script: it starts from the files on disk and an empty log.  The script
  reads no argument, no environment variable and no file.\<close>

definition run :: "('img, 'wr, 'code) env \<Rightarrow> (path \<rightharpoonup> 'img) \<Rightarrow> unit result \<times> 'img state" where
  "run E fs = script E \<lparr>files = fs, calls = []\<rparr>"


subsection \<open>What a run calls, and when it returns\<close>

text \<open>The nine calls of the script, in the order of the source.\<close>

definition script_calls :: "call list" where
  "script_calls =
     [Import ''qrcode'', Import ''barcode'', Import ''barcode.writer'',
      QrcodeMake qr_url, ImgSave ''qr.png'',
      GetBarcodeClass ''code128'', NewImageWriter, NewBarcode barcode_payload,
      CodeSave ''barcode'']"

text \<open>The payloads handed to the two encoders and the paths handed to the two
  \<^verbatim>\<open>save\<close> methods, read off a log.\<close>

fun qr_payloads :: "call list \<Rightarrow> string list" where
  "qr_payloads [] = []"
| "qr_payloads (QrcodeMake p # cs) = p # qr_payloads cs"
| "qr_payloads (c # cs) = qr_payloads cs"

fun barcode_payloads :: "call list \<Rightarrow> string list" where
  "barcode_payloads [] = []"
| "barcode_payloads (NewBarcode p # cs) = p # barcode_payloads cs"
| "barcode_payloads (c # cs) = barcode_payloads cs"

fun save_paths :: "call list \<Rightarrow> path list" where
  "save_paths [] = []"
| "save_paths (ImgSave p # cs) = p # save_paths cs"
| "save_paths (CodeSave p # cs) = p # save_paths cs"
| "save_paths (c # cs) = save_paths cs"

text \<open>The conditions on the environment under which each part of the script returns:
  the three modules are installed; the QR encoder accepts the URL and \<^verbatim>\<open>qr.png\<close> can
  be written; the barcode library has the class and the writer, the class accepts the
  payload, the writer renders it with suffix \<open>ext\<close>, and the resulting path can be
  written.\<close>

definition imports_ok :: "('img, 'wr, 'code) env \<Rightarrow> bool" where
  "imports_ok E \<longleftrightarrow>
     importable E ''qrcode'' \<and> importable E ''barcode'' \<and> importable E ''barcode.writer''"

definition qr_ok :: "('img, 'wr, 'code) env \<Rightarrow> string \<Rightarrow> 'img \<Rightarrow> bool" where
  "qr_ok E url img \<longleftrightarrow> qrcode_make E url = Inr img \<and> writable E ''qr.png''"

definition barcode_ok :: "('img, 'wr, 'code) env \<Rightarrow> string \<Rightarrow> string \<Rightarrow> 'img \<Rightarrow> bool" where
  "barcode_ok E payload ext img \<longleftrightarrow>
     (\<exists>Code128 w code.
        get_barcode_class E ''code128'' = Inr Code128 \<and> image_writer E = Inr w \<and>
        Code128 payload w = Inr code \<and> code_render E code = Inr (ext, img)) \<and>
     writable E (''barcode'' @ ext)"

subsection \<open>The contracts of the collaborators\<close>

text \<open>The spec composes the barcode payload from an order identifier and a SKU; the
  source has the composed literal only.\<close>

definition spec_payload :: "string \<Rightarrow> string \<Rightarrow> string" where
  "spec_payload order_id sku = order_id @ ''|'' @ sku"

definition code128_supported :: "char \<Rightarrow> bool" where
  \<comment> \<open>Modelled from the spec: the character table of the barcode library is missing from
      the sources.  The payload ``must use characters supported by the Code128 symbology
      (effectively arbitrary ASCII)''; Code128 encodes ``the full ASCII character set''.
      A \<open>char\<close> is a byte; the bytes from 128 on stand for the characters outside ASCII.\<close>
  "code128_supported c \<longleftrightarrow> (of_char c :: nat) < 128"

text \<open>A reader decodes an image to the payload it was made from.  The readers are not
  part of the script; the round trips are stated for every encoder and reader that fit
  together in this sense.\<close>

definition qr_reads_back :: "('img, 'wr, 'code) env \<Rightarrow> ('img \<Rightarrow> string option) \<Rightarrow> bool" where
  "qr_reads_back E decode \<longleftrightarrow> (\<forall>s img. qrcode_make E s = Inr img \<longrightarrow> decode img = Some s)"

definition code128_reads_back :: "('img, 'wr, 'code) env \<Rightarrow> ('img \<Rightarrow> string option) \<Rightarrow> bool" where
  "code128_reads_back E decode \<longleftrightarrow>
     (\<forall>Code128 p w code ext img.
        get_barcode_class E ''code128'' = Inr Code128 \<longrightarrow> Code128 p w = Inr code \<longrightarrow>
        code_render E code = Inr (ext, img) \<longrightarrow> decode img = Some p)"

definition code128_rejects_unsupported :: "('img, 'wr, 'code) env \<Rightarrow> bool" where
  \<comment> \<open>Modelled from the spec: the Code128 class of the barcode library is missing from the
      sources.  The operation ``fails if the payload contains unencodable characters''.
      This says nothing of the class lookup, the writer or the rendering, which may
      each fail.\<close>
  "code128_rejects_unsupported E \<longleftrightarrow>
     (\<forall>Code128 w p.
        get_barcode_class E ''code128'' = Inr Code128 \<longrightarrow> image_writer E = Inr w \<longrightarrow>
        (\<exists>c\<in>set p. \<not> code128_supported c) \<longrightarrow> (\<exists>e. Code128 p w = Inl e))"

definition code128_accepts_ascii :: "('img, 'wr, 'code) env \<Rightarrow> bool" where
  \<comment> \<open>Modelled from the spec: the Code128 class of the barcode library is missing from the
      sources.  Code128 is a symbology ``encoding the full ASCII character set'', and
      there are ``no invariants beyond: the encoded payload must be representable by the
      target symbology'': the class rejects a payload only for a character it does not
      support.  This says nothing of the class lookup, the writer or the rendering, which
      may each fail.\<close>
  "code128_accepts_ascii E \<longleftrightarrow>
     (\<forall>Code128 w p e.
        get_barcode_class E ''code128'' = Inr Code128 \<longrightarrow> image_writer E = Inr w \<longrightarrow>
        Code128 p w = Inl e \<longrightarrow> (\<exists>c\<in>set p. \<not> code128_supported c))"

subsection \<open>A reference environment\<close>

text \<open>One environment that meets the contracts, on which the theorems below are
  instantiated.  An image is the symbol it shows.\<close>

datatype symbol = QRSymbol string | Code128Symbol string

definition ref_Code128 :: "string \<Rightarrow> string \<Rightarrow> failure + string \<times> string" where
  \<comment> \<open>Modelled from the spec: the Code128 class of the barcode library, which rejects a
      payload with a character the symbology does not support.\<close>
  "ref_Code128 p w = (if list_all code128_supported p then Inr (p, w) else Inl (Unencodable p))"

definition ref_env :: "(symbol, string, string \<times> string) env" where
  \<comment> \<open>Modelled from the spec: both libraries installed, every path writable, a PNG
      writer (``typically \<^verbatim>\<open>.png\<close>'').\<close>
  "ref_env =
     \<lparr>importable = (\<lambda>m. True),
      qrcode_make = (\<lambda>s. Inr (QRSymbol s)),
      get_barcode_class = (\<lambda>n. if n = ''code128'' then Inr ref_Code128 else Inl (LibraryFailure n)),
      image_writer = Inr ''png'',
      code_render = (\<lambda>(p, fmt). Inr (''.'' @ fmt, Code128Symbol p)),
      writable = (\<lambda>p. True)\<rparr>"

fun ref_qr_decode :: "symbol \<Rightarrow> string option" where
  "ref_qr_decode (QRSymbol s) = Some s"
| "ref_qr_decode (Code128Symbol s) = None"

fun ref_code128_decode :: "symbol \<Rightarrow> string option" where
  "ref_code128_decode (Code128Symbol s) = Some s"
| "ref_code128_decode (QRSymbol s) = None"

section \<open>Properties\<close>

subsection \<open>Symbolic execution of the script\<close>

lemmas stmt_defs = script_def generate_qr_def generate_barcode_def img_save_def code_save_def
  write_file_def import_module_def lib_call_def then_do_def log_def

lemma generate_qr_ok:
  "qr_ok E url img \<Longrightarrow>
   generate_qr E url s =
     (Returned (), \<lparr>files = (files s)(''qr.png'' \<mapsto> img),
                    calls = calls s @ [QrcodeMake url, ImgSave ''qr.png'']\<rparr>)"
  by (simp add: qr_ok_def generate_qr_def img_save_def write_file_def lib_call_def
      then_do_def log_def)

lemma generate_barcode_ok:
  "barcode_ok E payload ext img \<Longrightarrow>
   generate_barcode E payload s =
     (Returned (''barcode'' @ ext),
      \<lparr>files = (files s)(''barcode'' @ ext \<mapsto> img),
       calls = calls s @ [GetBarcodeClass ''code128'', NewImageWriter, NewBarcode payload,
                          CodeSave ''barcode'']\<rparr>)"
  by (auto simp add: barcode_ok_def generate_barcode_def code_save_def write_file_def
      lib_call_def then_do_def log_def)

lemma generate_qr_Returned:
  "generate_qr E url s = (Returned u, s') \<Longrightarrow> \<exists>img. qr_ok E url img"
  by (auto simp add: qr_ok_def generate_qr_def img_save_def write_file_def lib_call_def
      then_do_def log_def split: sum.splits if_splits)

lemma generate_barcode_Returned:
  "generate_barcode E payload s = (Returned p, s') \<Longrightarrow> \<exists>ext img. barcode_ok E payload ext img"
  by (auto simp add: barcode_ok_def generate_barcode_def code_save_def write_file_def
      lib_call_def then_do_def log_def split: sum.splits if_splits prod.splits)

lemma run_ok:
  "imports_ok E \<Longrightarrow> qr_ok E qr_url img \<Longrightarrow> barcode_ok E barcode_payload ext bimg \<Longrightarrow>
   run E fs =
     (Returned (), \<lparr>files = fs(''qr.png'' \<mapsto> img, ''barcode'' @ ext \<mapsto> bimg),
                    calls = script_calls\<rparr>)"
  unfolding run_def script_def
  by (simp add: generate_qr_ok generate_barcode_ok then_do_def import_module_def lib_call_def
      log_def imports_ok_def script_calls_def)

lemma run_Returned:
  "run E fs = (Returned u, s') \<Longrightarrow>
   \<exists>img ext bimg. imports_ok E \<and> qr_ok E qr_url img \<and> barcode_ok E barcode_payload ext bimg"
  unfolding run_def script_def imports_ok_def
  apply (simp add: then_do_def import_module_def lib_call_def
      split: if_splits prod.splits result.splits)
  apply (metis generate_qr_Returned generate_barcode_Returned)
  done

lemma run_files:
  "\<exists>img ext bimg.
     files (snd (run E fs)) = fs \<or> files (snd (run E fs)) = fs(''qr.png'' \<mapsto> img) \<or>
     files (snd (run E fs)) = fs(''qr.png'' \<mapsto> img, ''barcode'' @ ext \<mapsto> bimg)"
  unfolding run_def stmt_defs
  by (auto split: sum.splits prod.splits)

lemma run_calls_prefix: "prefix (calls (snd (run E fs))) script_calls"
  unfolding run_def stmt_defs script_calls_def
  by (auto split: sum.splits prod.splits)

lemma run_qr_part:
  "imports_ok E \<Longrightarrow> qr_ok E qr_url img \<Longrightarrow>
   files (snd (run E fs)) ''qr.png'' = Some img \<and>
   qr_payloads (calls (snd (run E fs))) = [qr_url]"
  unfolding run_def stmt_defs imports_ok_def qr_ok_def
  by (auto split: sum.splits prod.splits)

subsection \<open>The reference environment meets the contracts\<close>

lemma ref_imports_ok: "imports_ok ref_env"
  by (simp add: imports_ok_def ref_env_def)

lemma ref_qr_ok: "qr_ok ref_env url (QRSymbol url)"
  by (simp add: qr_ok_def ref_env_def)

lemma ref_barcode_ok:
  "barcode_ok ref_env barcode_payload ''.png'' (Code128Symbol barcode_payload)"
  by (simp add: barcode_ok_def ref_env_def ref_Code128_def barcode_payload_def
      code128_supported_def)

lemma ref_qr_reads_back: "qr_reads_back ref_env ref_qr_decode"
  by (auto simp add: qr_reads_back_def ref_env_def)

lemma ref_code128_reads_back: "code128_reads_back ref_env ref_code128_decode"
  by (auto simp add: code128_reads_back_def ref_env_def ref_Code128_def split: if_splits)

lemma ref_code128_rejects_unsupported: "code128_rejects_unsupported ref_env"
  by (auto simp add: code128_rejects_unsupported_def ref_env_def ref_Code128_def list_all_iff)

lemma ref_code128_accepts_ascii: "code128_accepts_ascii ref_env"
  by (auto simp add: code128_accepts_ascii_def ref_env_def ref_Code128_def list_all_iff
      split: if_splits)

subsection \<open>The QR code\<close>

text \<open>
  C1.  In every environment where the three modules are installed, the QR encoder
  accepts the URL and \<^verbatim>\<open>qr.png\<close> can be written, a run leaves at \<^verbatim>\<open>qr.png\<close> the image
  the encoder made; the one payload the script hands to the QR encoder is the URL
  \<^verbatim>\<open>https://www.thednalabstore.com/order/ORD-2025-001\<close>, character for character; and
  every reader that reads back what the encoder encodes decodes the file to that URL.
  This holds whatever the barcode part of the run does afterwards.
\<close>

theorem qr_round_trip:
  "imports_ok E \<Longrightarrow> qr_ok E qr_url img \<Longrightarrow> qr_reads_back E decode \<Longrightarrow>
   files (snd (run E fs)) ''qr.png'' = Some img \<and>
   decode img = Some ''https://www.thednalabstore.com/order/ORD-2025-001'' \<and>
   qr_payloads (calls (snd (run E fs))) = [''https://www.thednalabstore.com/order/ORD-2025-001'']"
  using run_qr_part [of E img fs]
  by (simp add: qr_reads_back_def qr_ok_def qr_url_def)

theorem qr_round_trip_witness:
  "files (snd (run ref_env Map.empty)) ''qr.png'' =
     Some (QRSymbol ''https://www.thednalabstore.com/order/ORD-2025-001'') \<and>
   ref_qr_decode (QRSymbol ''https://www.thednalabstore.com/order/ORD-2025-001'') =
     Some ''https://www.thednalabstore.com/order/ORD-2025-001'' \<and>
   qr_payloads (calls (snd (run ref_env Map.empty))) =
     [''https://www.thednalabstore.com/order/ORD-2025-001'']"
  using qr_round_trip [OF ref_imports_ok ref_qr_ok ref_qr_reads_back, of Map.empty]
  by (simp add: qr_url_def)

subsection \<open>The barcode\<close>

text \<open>
  C2.  The payload literal of the source is the order identifier \<^verbatim>\<open>ORD-2025-001\<close> and the
  SKU \<^verbatim>\<open>TS-001\<close> joined by \<^verbatim>\<open>|\<close>, and it is the one payload the script hands to the
  Code128 class.  In every environment where the run gets through (modules installed,
  both encoders accept their payloads, both paths writable) the run returns, the file
  \<^verbatim>\<open>barcode\<close> plus the writer's suffix holds the rendered image, and every Code128 reader
  that reads back what the library renders decodes it to \<^verbatim>\<open>ORD-2025-001|TS-001\<close>.
\<close>

theorem barcode_round_trip:
  "imports_ok E \<Longrightarrow> qr_ok E qr_url qimg \<Longrightarrow> barcode_ok E barcode_payload ext img \<Longrightarrow>
   code128_reads_back E decode \<Longrightarrow>
   barcode_payload = spec_payload ''ORD-2025-001'' ''TS-001'' \<and>
   barcode_payloads (calls (snd (run E fs))) = [''ORD-2025-001|TS-001''] \<and>
   fst (run E fs) = Returned () \<and>
   files (snd (run E fs)) (''barcode'' @ ext) = Some img \<and>
   decode img = Some ''ORD-2025-001|TS-001''"
proof -
  assume ok: "imports_ok E" "qr_ok E qr_url qimg" "barcode_ok E barcode_payload ext img"
    and rb: "code128_reads_back E decode"
  have "barcode_payload = spec_payload ''ORD-2025-001'' ''TS-001''"
    by (simp add: barcode_payload_def spec_payload_def)
  moreover from ok have "barcode_payloads (calls (snd (run E fs))) = [''ORD-2025-001|TS-001'']"
    by (simp add: run_ok script_calls_def barcode_payload_def)
  moreover from ok have "fst (run E fs) = Returned ()"
    by (simp add: run_ok)
  moreover from ok have "files (snd (run E fs)) (''barcode'' @ ext) = Some img"
    by (simp add: run_ok)
  moreover from ok(3) rb have "decode img = Some barcode_payload"
    unfolding barcode_ok_def code128_reads_back_def by blast
  ultimately show ?thesis
    by (simp add: barcode_payload_def)
qed

theorem barcode_round_trip_witness:
  "barcode_payload = spec_payload ''ORD-2025-001'' ''TS-001'' \<and>
   barcode_payloads (calls (snd (run ref_env Map.empty))) = [''ORD-2025-001|TS-001''] \<and>
   fst (run ref_env Map.empty) = Returned () \<and>
   files (snd (run ref_env Map.empty)) ''barcode.png'' =
     Some (Code128Symbol ''ORD-2025-001|TS-001'') \<and>
   ref_code128_decode (Code128Symbol ''ORD-2025-001|TS-001'') = Some ''ORD-2025-001|TS-001''"
  using barcode_round_trip [OF ref_imports_ok ref_qr_ok ref_barcode_ok ref_code128_reads_back,
      of Map.empty]
  by (simp add: barcode_payload_def)

subsection \<open>The two artifacts\<close>

text \<open>
  C3.  A run returns normally exactly when the environment lets every statement through,
  and then the files on disk are those from before the run with two of them written:
  \<^verbatim>\<open>qr.png\<close>, holding the QR image, and \<^verbatim>\<open>barcode\<close> followed by the suffix \<open>ext\<close> that
  the writer backend chose, holding the barcode image.  The paths the script itself passes
  to the two \<^verbatim>\<open>save\<close> methods are \<^verbatim>\<open>qr.png\<close> and \<^verbatim>\<open>barcode\<close>, the second without an
  extension.
\<close>

theorem two_artifacts:
  "(run E fs = (Returned (), s')) =
     (\<exists>img ext bimg.
        imports_ok E \<and> qr_ok E qr_url img \<and> barcode_ok E barcode_payload ext bimg \<and>
        s' = \<lparr>files = fs(''qr.png'' \<mapsto> img, ''barcode'' @ ext \<mapsto> bimg), calls = script_calls\<rparr>) \<and>
   save_paths script_calls = [''qr.png'', ''barcode'']"
proof -
  have "save_paths script_calls = [''qr.png'', ''barcode'']"
    by (simp add: script_calls_def)
  moreover have "(run E fs = (Returned (), s')) =
     (\<exists>img ext bimg.
        imports_ok E \<and> qr_ok E qr_url img \<and> barcode_ok E barcode_payload ext bimg \<and>
        s' = \<lparr>files = fs(''qr.png'' \<mapsto> img, ''barcode'' @ ext \<mapsto> bimg), calls = script_calls\<rparr>)"
  proof
    assume r: "run E fs = (Returned (), s')"
    then obtain img ext bimg where
      ok: "imports_ok E" "qr_ok E qr_url img" "barcode_ok E barcode_payload ext bimg"
      using run_Returned by blast
    from run_ok [OF ok, of fs] r
    have "s' = \<lparr>files = fs(''qr.png'' \<mapsto> img, ''barcode'' @ ext \<mapsto> bimg), calls = script_calls\<rparr>"
      by simp
    with ok show "\<exists>img ext bimg.
        imports_ok E \<and> qr_ok E qr_url img \<and> barcode_ok E barcode_payload ext bimg \<and>
        s' = \<lparr>files = fs(''qr.png'' \<mapsto> img, ''barcode'' @ ext \<mapsto> bimg), calls = script_calls\<rparr>"
      by blast
  next
    assume "\<exists>img ext bimg.
        imports_ok E \<and> qr_ok E qr_url img \<and> barcode_ok E barcode_payload ext bimg \<and>
        s' = \<lparr>files = fs(''qr.png'' \<mapsto> img, ''barcode'' @ ext \<mapsto> bimg), calls = script_calls\<rparr>"
    then obtain img ext bimg where
      ok: "imports_ok E" "qr_ok E qr_url img" "barcode_ok E barcode_payload ext bimg" and
      s': "s' = \<lparr>files = fs(''qr.png'' \<mapsto> img, ''barcode'' @ ext \<mapsto> bimg), calls = script_calls\<rparr>"
      by blast
    show "run E fs = (Returned (), s')"
      using run_ok [OF ok, of fs] s' by simp
  qed
  ultimately show ?thesis by simp
qed

theorem two_artifacts_witness:
  "run ref_env Map.empty =
     (Returned (),
      \<lparr>files = [''qr.png'' \<mapsto> QRSymbol ''https://www.thednalabstore.com/order/ORD-2025-001'',
                ''barcode.png'' \<mapsto> Code128Symbol ''ORD-2025-001|TS-001''],
       calls = script_calls\<rparr>) \<and>
   dom (files (snd (run ref_env Map.empty))) = {''qr.png'', ''barcode.png''}"
proof -
  let ?s = "\<lparr>files = [''qr.png'' \<mapsto> QRSymbol qr_url, ''barcode'' @ ''.png'' \<mapsto> Code128Symbol barcode_payload],
       calls = script_calls\<rparr>"
  have "run ref_env Map.empty = (Returned (), ?s)"
    using two_artifacts [of ref_env Map.empty ?s] ref_imports_ok ref_qr_ok ref_barcode_ok
    by blast
  then show ?thesis
    by (auto simp add: qr_url_def barcode_payload_def)
qed

subsection \<open>Failures\<close>

text \<open>
  C4.  The script has no handler: whichever of its statements raises first, the run ends
  there with that very failure.  For each of the ten places where the environment can
  make a statement raise (three imports, the QR encoder, the write of \<^verbatim>\<open>qr.png\<close>, the
  class lookup, the writer, the Code128 constructor, the rendering, the write of the
  barcode file) the result of the run is the failure raised there, the log holds the
  calls up to and including the failing one, each once, and the files are those written
  before it.  Nothing is caught, retried or undone.
\<close>

theorem no_error_handling:
  "(\<not> importable E ''qrcode'' \<longrightarrow>
      run E fs = (Raised (MissingLibrary ''qrcode''), \<lparr>files = fs, calls = take 1 script_calls\<rparr>)) \<and>
   (importable E ''qrcode'' \<and> \<not> importable E ''barcode'' \<longrightarrow>
      run E fs = (Raised (MissingLibrary ''barcode''), \<lparr>files = fs, calls = take 2 script_calls\<rparr>)) \<and>
   (importable E ''qrcode'' \<and> importable E ''barcode'' \<and> \<not> importable E ''barcode.writer'' \<longrightarrow>
      run E fs =
        (Raised (MissingLibrary ''barcode.writer''), \<lparr>files = fs, calls = take 3 script_calls\<rparr>)) \<and>
   (imports_ok E \<and> qrcode_make E qr_url = Inl e \<longrightarrow>
      run E fs = (Raised e, \<lparr>files = fs, calls = take 4 script_calls\<rparr>)) \<and>
   (imports_ok E \<and> qrcode_make E qr_url = Inr img \<and> \<not> writable E ''qr.png'' \<longrightarrow>
      run E fs = (Raised (NotWritable ''qr.png''), \<lparr>files = fs, calls = take 5 script_calls\<rparr>)) \<and>
   (imports_ok E \<and> qr_ok E qr_url img \<and> get_barcode_class E ''code128'' = Inl e \<longrightarrow>
      run E fs =
        (Raised e, \<lparr>files = fs(''qr.png'' \<mapsto> img), calls = take 6 script_calls\<rparr>)) \<and>
   (imports_ok E \<and> qr_ok E qr_url img \<and> get_barcode_class E ''code128'' = Inr Code128 \<and>
    image_writer E = Inl e \<longrightarrow>
      run E fs =
        (Raised e, \<lparr>files = fs(''qr.png'' \<mapsto> img), calls = take 7 script_calls\<rparr>)) \<and>
   (imports_ok E \<and> qr_ok E qr_url img \<and> get_barcode_class E ''code128'' = Inr Code128 \<and>
    image_writer E = Inr w \<and> Code128 barcode_payload w = Inl e \<longrightarrow>
      run E fs =
        (Raised e, \<lparr>files = fs(''qr.png'' \<mapsto> img), calls = take 8 script_calls\<rparr>)) \<and>
   (imports_ok E \<and> qr_ok E qr_url img \<and> get_barcode_class E ''code128'' = Inr Code128 \<and>
    image_writer E = Inr w \<and> Code128 barcode_payload w = Inr code \<and>
    code_render E code = Inl e \<longrightarrow>
      run E fs = (Raised e, \<lparr>files = fs(''qr.png'' \<mapsto> img), calls = script_calls\<rparr>)) \<and>
   (imports_ok E \<and> qr_ok E qr_url img \<and> get_barcode_class E ''code128'' = Inr Code128 \<and>
    image_writer E = Inr w \<and> Code128 barcode_payload w = Inr code \<and>
    code_render E code = Inr (ext, bimg) \<and> \<not> writable E (''barcode'' @ ext) \<longrightarrow>
      run E fs =
        (Raised (NotWritable (''barcode'' @ ext)),
         \<lparr>files = fs(''qr.png'' \<mapsto> img), calls = script_calls\<rparr>))"
  unfolding run_def stmt_defs script_calls_def imports_ok_def qr_ok_def
  by simp

theorem no_error_handling_witness:
  "run (ref_env\<lparr>importable := (\<lambda>m. m \<noteq> ''barcode'')\<rparr>) Map.empty =
     (Raised (MissingLibrary ''barcode''),
      \<lparr>files = Map.empty, calls = [Import ''qrcode'', Import ''barcode'']\<rparr>) \<and>
   run (ref_env\<lparr>qrcode_make := (\<lambda>s. Inl (Unencodable s))\<rparr>) Map.empty =
     (Raised (Unencodable qr_url),
      \<lparr>files = Map.empty,
       calls = [Import ''qrcode'', Import ''barcode'', Import ''barcode.writer'',
                QrcodeMake qr_url]\<rparr>) \<and>
   run (ref_env\<lparr>writable := (\<lambda>p. p \<noteq> ''barcode.png'')\<rparr>) Map.empty =
     (Raised (NotWritable ''barcode.png''),
      \<lparr>files = [''qr.png'' \<mapsto> QRSymbol qr_url], calls = script_calls\<rparr>)"
proof -
  let ?E1 = "ref_env\<lparr>importable := (\<lambda>m. m \<noteq> ''barcode'')\<rparr>"
  let ?E2 = "ref_env\<lparr>qrcode_make := (\<lambda>s. Inl (Unencodable s))\<rparr>"
  let ?E3 = "ref_env\<lparr>writable := (\<lambda>p. p \<noteq> ''barcode.png'')\<rparr>"
  have "run ?E1 Map.empty =
     (Raised (MissingLibrary ''barcode''),
      \<lparr>files = Map.empty, calls = [Import ''qrcode'', Import ''barcode'']\<rparr>)"
    using no_error_handling [where E = ?E1 and fs = Map.empty]
    by (simp add: ref_env_def script_calls_def)
  moreover have "run ?E2 Map.empty =
     (Raised (Unencodable qr_url),
      \<lparr>files = Map.empty,
       calls = [Import ''qrcode'', Import ''barcode'', Import ''barcode.writer'',
                QrcodeMake qr_url]\<rparr>)"
    using no_error_handling [where E = ?E2 and fs = Map.empty and e = "Unencodable qr_url"]
    by (simp add: ref_env_def script_calls_def imports_ok_def)
  moreover have "run ?E3 Map.empty =
     (Raised (NotWritable ''barcode.png''),
      \<lparr>files = [''qr.png'' \<mapsto> QRSymbol qr_url], calls = script_calls\<rparr>)"
    using no_error_handling [where E = ?E3 and fs = Map.empty and img = "QRSymbol qr_url"
        and ?Code128.0 = ref_Code128 and w = "''png''" and code = "(barcode_payload, ''png'')"
        and ext = "''.png''" and bimg = "Code128Symbol barcode_payload"]
    by (simp add: ref_env_def imports_ok_def qr_ok_def ref_Code128_def barcode_payload_def
        code128_supported_def)
  ultimately show ?thesis by simp
qed

text \<open>The steps of the barcode part, used below.\<close>

lemma save_paths_append: "save_paths (xs @ ys) = save_paths xs @ save_paths ys"
  by (induction xs rule: save_paths.induct) simp_all

lemma generate_barcode_rejected:
  "get_barcode_class E ''code128'' = Inr Code128 \<Longrightarrow> image_writer E = Inr w \<Longrightarrow>
   Code128 payload w = Inl e \<Longrightarrow>
   generate_barcode E payload s =
     (Raised e, s\<lparr>calls := calls s @ [GetBarcodeClass ''code128'', NewImageWriter,
                                        NewBarcode payload]\<rparr>)"
  by (simp add: generate_barcode_def lib_call_def then_do_def log_def)

lemma generate_barcode_accepted:
  "get_barcode_class E ''code128'' = Inr Code128 \<Longrightarrow> image_writer E = Inr w \<Longrightarrow>
   Code128 payload w = Inr code \<Longrightarrow> code_render E code = Inr (ext, img) \<Longrightarrow>
   fst (generate_barcode E payload s) =
     (if writable E (''barcode'' @ ext) then Returned (''barcode'' @ ext)
      else Raised (NotWritable (''barcode'' @ ext)))"
  by (simp add: generate_barcode_def code_save_def write_file_def lib_call_def then_do_def
      log_def)

lemma generate_barcode_Raised:
  "fst (generate_barcode E payload s) = Raised e \<longleftrightarrow>
     get_barcode_class E ''code128'' = Inl e \<or>
     (\<exists>Code128. get_barcode_class E ''code128'' = Inr Code128 \<and>
        (image_writer E = Inl e \<or>
         (\<exists>w. image_writer E = Inr w \<and>
            (Code128 payload w = Inl e \<or>
             (\<exists>code. Code128 payload w = Inr code \<and>
                (code_render E code = Inl e \<or>
                 (\<exists>ext img. code_render E code = Inr (ext, img) \<and>
                    \<not> writable E (''barcode'' @ ext) \<and>
                    e = NotWritable (''barcode'' @ ext))))))))"
  by (auto simp add: generate_barcode_def code_save_def write_file_def lib_call_def then_do_def
      log_def split: sum.splits prod.splits)

text \<open>
  C5, as amended.  The barcode part of the script (lines 14 to 16) fails with \<open>e\<close>
  exactly when one of its five steps raises \<open>e\<close>: the class lookup, the making of the
  writer, the Code128 constructor on the payload, the rendering, or the write to a
  destination that is not writable.  With a class that rejects every payload holding an
  unsupported character, the barcode part fails on such a payload once class and writer
  are there, and it fails before \<^verbatim>\<open>save\<close> is called: the files are as before and no
  path was passed to a \<^verbatim>\<open>save\<close> method.  It fails when the destination, \<^verbatim>\<open>barcode\<close>
  plus the rendered suffix, is not writable.  With a class that rejects a payload only
  for an unsupported character, a failure means an unsupported character, a destination
  that is not writable, or a failure of the library itself in the lookup, the writer or
  the rendering.
\<close>

theorem barcode_failure:
  "(fst (generate_barcode E payload s) = Raised e \<longleftrightarrow>
      get_barcode_class E ''code128'' = Inl e \<or>
      (\<exists>Code128. get_barcode_class E ''code128'' = Inr Code128 \<and>
         (image_writer E = Inl e \<or>
          (\<exists>w. image_writer E = Inr w \<and>
             (Code128 payload w = Inl e \<or>
              (\<exists>code. Code128 payload w = Inr code \<and>
                 (code_render E code = Inl e \<or>
                  (\<exists>ext img. code_render E code = Inr (ext, img) \<and>
                     \<not> writable E (''barcode'' @ ext) \<and>
                     e = NotWritable (''barcode'' @ ext))))))))) \<and>
   (code128_rejects_unsupported E \<and> get_barcode_class E ''code128'' = Inr Code128 \<and>
    image_writer E = Inr w \<and> (\<exists>c\<in>set payload. \<not> code128_supported c) \<longrightarrow>
      (\<exists>e'. fst (generate_barcode E payload s) = Raised e') \<and>
      files (snd (generate_barcode E payload s)) = files s \<and>
      save_paths (calls (snd (generate_barcode E payload s))) = save_paths (calls s)) \<and>
   (get_barcode_class E ''code128'' = Inr Code128 \<and> image_writer E = Inr w \<and>
    Code128 payload w = Inr code \<and> code_render E code = Inr (ext, img) \<and>
    \<not> writable E (''barcode'' @ ext) \<longrightarrow>
      fst (generate_barcode E payload s) = Raised (NotWritable (''barcode'' @ ext))) \<and>
   (code128_accepts_ascii E \<and> fst (generate_barcode E payload s) = Raised e \<longrightarrow>
      (\<exists>c\<in>set payload. \<not> code128_supported c) \<or>
      (\<exists>x. \<not> writable E (''barcode'' @ x) \<and> e = NotWritable (''barcode'' @ x)) \<or>
      get_barcode_class E ''code128'' = Inl e \<or> image_writer E = Inl e \<or>
      (\<exists>c. code_render E c = Inl e))"
proof -
  have "code128_rejects_unsupported E \<and> get_barcode_class E ''code128'' = Inr Code128 \<and>
    image_writer E = Inr w \<and> (\<exists>c\<in>set payload. \<not> code128_supported c) \<longrightarrow>
      (\<exists>e'. fst (generate_barcode E payload s) = Raised e') \<and>
      files (snd (generate_barcode E payload s)) = files s \<and>
      save_paths (calls (snd (generate_barcode E payload s))) = save_paths (calls s)"
  proof
    assume a: "code128_rejects_unsupported E \<and> get_barcode_class E ''code128'' = Inr Code128 \<and>
      image_writer E = Inr w \<and> (\<exists>c\<in>set payload. \<not> code128_supported c)"
    then obtain e' where "Code128 payload w = Inl e'"
      unfolding code128_rejects_unsupported_def by blast
    with a have "generate_barcode E payload s =
        (Raised e', s\<lparr>calls := calls s @ [GetBarcodeClass ''code128'', NewImageWriter,
                                           NewBarcode payload]\<rparr>)"
      by (simp add: generate_barcode_rejected)
    then show "(\<exists>e'. fst (generate_barcode E payload s) = Raised e') \<and>
      files (snd (generate_barcode E payload s)) = files s \<and>
      save_paths (calls (snd (generate_barcode E payload s))) = save_paths (calls s)"
      by (simp add: save_paths_append)
  qed
  moreover have "get_barcode_class E ''code128'' = Inr Code128 \<and> image_writer E = Inr w \<and>
    Code128 payload w = Inr code \<and> code_render E code = Inr (ext, img) \<and>
    \<not> writable E (''barcode'' @ ext) \<longrightarrow>
      fst (generate_barcode E payload s) = Raised (NotWritable (''barcode'' @ ext))"
    by (simp add: generate_barcode_accepted)
  moreover have "code128_accepts_ascii E \<and> fst (generate_barcode E payload s) = Raised e \<longrightarrow>
      (\<exists>c\<in>set payload. \<not> code128_supported c) \<or>
      (\<exists>x. \<not> writable E (''barcode'' @ x) \<and> e = NotWritable (''barcode'' @ x)) \<or>
      get_barcode_class E ''code128'' = Inl e \<or> image_writer E = Inl e \<or>
      (\<exists>c. code_render E c = Inl e)"
    unfolding code128_accepts_ascii_def generate_barcode_Raised by blast
  ultimately show ?thesis
    using generate_barcode_Raised [of E payload s e] by blast
qed

theorem barcode_failure_witness:
  "fst (generate_barcode ref_env [CHR ''A'', CHR 0xE9] \<lparr>files = Map.empty, calls = []\<rparr>) =
     Raised (Unencodable [CHR ''A'', CHR 0xE9]) \<and>
   files (snd (generate_barcode ref_env [CHR ''A'', CHR 0xE9] \<lparr>files = Map.empty, calls = []\<rparr>)) =
     Map.empty \<and>
   fst (generate_barcode (ref_env\<lparr>writable := (\<lambda>p. False)\<rparr>) ''A''
          \<lparr>files = Map.empty, calls = []\<rparr>) = Raised (NotWritable ''barcode.png'') \<and>
   fst (generate_barcode (ref_env\<lparr>image_writer := Inl (MissingLibrary ''PIL'')\<rparr>) ''A''
          \<lparr>files = Map.empty, calls = []\<rparr>) = Raised (MissingLibrary ''PIL'')"
proof -
  let ?s = "\<lparr>files = Map.empty, calls = []\<rparr> :: symbol state"
  let ?bad = "[CHR ''A'', CHR 0xE9]"
  let ?E2 = "ref_env\<lparr>writable := (\<lambda>p. False)\<rparr>"
  let ?E3 = "ref_env\<lparr>image_writer := Inl (MissingLibrary ''PIL'')\<rparr>"
  have "fst (generate_barcode ref_env ?bad ?s) = Raised (Unencodable ?bad)"
    using barcode_failure [of ref_env ?bad ?s "Unencodable ?bad"]
    by (simp add: ref_env_def ref_Code128_def code128_supported_def)
  moreover have "files (snd (generate_barcode ref_env ?bad ?s)) = Map.empty"
    using barcode_failure [of ref_env ?bad ?s _ ref_Code128 "''png''"]
      ref_code128_rejects_unsupported
    by (simp add: ref_env_def code128_supported_def)
  moreover have "fst (generate_barcode ?E2 ''A'' ?s) = Raised (NotWritable ''barcode.png'')"
    using barcode_failure [of ?E2 "''A''" ?s _ ref_Code128 "''png''" "(''A'', ''png'')"
        "''.png''" "Code128Symbol ''A''"]
    by (simp add: ref_env_def ref_Code128_def code128_supported_def)
  moreover have "fst (generate_barcode ?E3 ''A'' ?s) = Raised (MissingLibrary ''PIL'')"
    using barcode_failure [of ?E3 "''A''" ?s "MissingLibrary ''PIL''"]
    by (simp add: ref_env_def)
  ultimately show ?thesis by simp
qed

text \<open>
  The barcode part does not fail only on an unsupported character or a destination that
  is not writable: with no image writer to be had, it fails on the payload \<^verbatim>\<open>A\<close>, all
  ASCII, with every path writable.
\<close>

theorem barcode_failure_counterexample:
  "fst (generate_barcode (ref_env\<lparr>image_writer := Inl (MissingLibrary ''PIL'')\<rparr>) ''A''
          \<lparr>files = Map.empty, calls = []\<rparr>) = Raised (MissingLibrary ''PIL'') \<and>
   list_all code128_supported ''A'' \<and>
   writable (ref_env\<lparr>image_writer := Inl (MissingLibrary ''PIL'')\<rparr>) ''barcode.png''"
  by (simp add: stmt_defs ref_env_def code128_supported_def)

subsection \<open>Determinism and reruns\<close>

lemma run_payloads:
  "set (qr_payloads (calls (snd (run E fs)))) \<subseteq> {qr_url} \<and>
   set (barcode_payloads (calls (snd (run E fs)))) \<subseteq> {barcode_payload}"
  unfolding run_def stmt_defs
  by (auto split: sum.splits prod.splits)

lemma run_Returned_calls:
  "fst (run E fs) = Returned () \<Longrightarrow> calls (snd (run E fs)) = script_calls"
proof -
  assume "fst (run E fs) = Returned ()"
  then have "run E fs = (Returned (), snd (run E fs))"
    by (simp add: prod_eq_iff)
  then obtain img ext bimg where
    "imports_ok E" "qr_ok E qr_url img" "barcode_ok E barcode_payload ext bimg"
    using run_Returned by blast
  then show ?thesis
    by (simp add: run_ok)
qed

lemma run_reads_no_file:
  "fst (run E fs) = fst (run E fs') \<and> calls (snd (run E fs)) = calls (snd (run E fs'))"
  unfolding run_def stmt_defs
  by (auto split: sum.splits prod.splits)

text \<open>
  C6.  The script takes no input: \<open>run\<close> has no argument but the environment and the
  files on disk, and it reads no file, so its outcome and its calls do not depend on
  them.  In any run, in any environment and from any files, a payload handed to the QR
  encoder is the URL literal and a payload handed to the Code128 class is the payload
  literal; any two runs that return hand over the same lists of payloads, one URL and one
  barcode payload.
\<close>

theorem payloads_are_fixed:
  "set (qr_payloads (calls (snd (run E1 fs1)))) \<subseteq>
     {''https://www.thednalabstore.com/order/ORD-2025-001''} \<and>
   set (barcode_payloads (calls (snd (run E1 fs1)))) \<subseteq> {''ORD-2025-001|TS-001''} \<and>
   fst (run E1 fs1) = fst (run E1 fs1') \<and>
   calls (snd (run E1 fs1)) = calls (snd (run E1 fs1')) \<and>
   (fst (run E1 fs1) = Returned () \<and> fst (run E2 fs2) = Returned () \<longrightarrow>
      qr_payloads (calls (snd (run E1 fs1))) = qr_payloads (calls (snd (run E2 fs2))) \<and>
      barcode_payloads (calls (snd (run E1 fs1))) = barcode_payloads (calls (snd (run E2 fs2))) \<and>
      qr_payloads (calls (snd (run E1 fs1))) =
        [''https://www.thednalabstore.com/order/ORD-2025-001''] \<and>
      barcode_payloads (calls (snd (run E1 fs1))) = [''ORD-2025-001|TS-001''])"
  using run_payloads [of E1 fs1] run_Returned_calls [of E1 fs1] run_Returned_calls [of E2 fs2]
    run_reads_no_file [of E1 fs1 fs1']
  by (simp add: script_calls_def qr_url_def barcode_payload_def)

theorem payloads_are_fixed_witness:
  "qr_payloads (calls (snd (run ref_env Map.empty))) =
     qr_payloads (calls (snd (run (ref_env\<lparr>image_writer := Inr ''jpeg''\<rparr>)
        [''qr.png'' \<mapsto> QRSymbol ''old''])))  \<and>
   barcode_payloads (calls (snd (run ref_env Map.empty))) =
     barcode_payloads (calls (snd (run (ref_env\<lparr>image_writer := Inr ''jpeg''\<rparr>)
        [''qr.png'' \<mapsto> QRSymbol ''old'']))) \<and>
   qr_payloads (calls (snd (run ref_env Map.empty))) =
     [''https://www.thednalabstore.com/order/ORD-2025-001''] \<and>
   barcode_payloads (calls (snd (run ref_env Map.empty))) = [''ORD-2025-001|TS-001'']"
proof -
  let ?E2 = "ref_env\<lparr>image_writer := Inr ''jpeg''\<rparr>"
  let ?fs2 = "[''qr.png'' \<mapsto> QRSymbol ''old'']"
  have r1: "fst (run ref_env Map.empty) = Returned ()"
    by (simp add: run_ok [OF ref_imports_ok ref_qr_ok ref_barcode_ok])
  have "imports_ok ?E2" "qr_ok ?E2 qr_url (QRSymbol qr_url)"
    "barcode_ok ?E2 barcode_payload ''.jpeg'' (Code128Symbol barcode_payload)"
    by (simp_all add: imports_ok_def qr_ok_def barcode_ok_def ref_env_def ref_Code128_def
        barcode_payload_def code128_supported_def)
  then have r2: "fst (run ?E2 ?fs2) = Returned ()"
    by (simp add: run_ok)
  from payloads_are_fixed [of ref_env Map.empty Map.empty ?E2 ?fs2] r1 r2 show ?thesis
    by blast
qed

text \<open>
  C7.  The script is run twice, the second time on the files the first run left.  The
  two runs may render differently (\<open>E1\<close> and \<open>E2\<close>, images \<open>q1\<close>, \<open>b1\<close> and
  \<open>q2\<close>, \<open>b2\<close>): nothing says that the images are the same bytes.  When both
  environments let the run through and the readers read back what the encoders encode,
  both runs return and the files of the second run decode to what the files of the first
  run decode to.
\<close>

theorem rerun_same_decoded_content:
  "imports_ok E1 \<Longrightarrow> qr_ok E1 qr_url q1 \<Longrightarrow> barcode_ok E1 barcode_payload x1 b1 \<Longrightarrow>
   imports_ok E2 \<Longrightarrow> qr_ok E2 qr_url q2 \<Longrightarrow> barcode_ok E2 barcode_payload x2 b2 \<Longrightarrow>
   qr_reads_back E1 qr_decode \<Longrightarrow> qr_reads_back E2 qr_decode \<Longrightarrow>
   code128_reads_back E1 bar_decode \<Longrightarrow> code128_reads_back E2 bar_decode \<Longrightarrow>
   fst (run E1 fs) = Returned () \<and>
   fst (run E2 (files (snd (run E1 fs)))) = Returned () \<and>
   files (snd (run E1 fs)) ''qr.png'' = Some q1 \<and>
   files (snd (run E2 (files (snd (run E1 fs))))) ''qr.png'' = Some q2 \<and>
   qr_decode q1 = qr_decode q2 \<and>
   files (snd (run E1 fs)) (''barcode'' @ x1) = Some b1 \<and>
   files (snd (run E2 (files (snd (run E1 fs))))) (''barcode'' @ x2) = Some b2 \<and>
   bar_decode b1 = bar_decode b2"
proof -
  assume ok1: "imports_ok E1" "qr_ok E1 qr_url q1" "barcode_ok E1 barcode_payload x1 b1"
    and ok2: "imports_ok E2" "qr_ok E2 qr_url q2" "barcode_ok E2 barcode_payload x2 b2"
    and qr: "qr_reads_back E1 qr_decode" "qr_reads_back E2 qr_decode"
    and bar: "code128_reads_back E1 bar_decode" "code128_reads_back E2 bar_decode"
  from ok1(2) ok2(2) qr have "qr_decode q1 = Some qr_url" "qr_decode q2 = Some qr_url"
    unfolding qr_ok_def qr_reads_back_def by blast+
  moreover from ok1(3) ok2(3) bar
  have "bar_decode b1 = Some barcode_payload" "bar_decode b2 = Some barcode_payload"
    unfolding barcode_ok_def code128_reads_back_def by blast+
  ultimately show ?thesis
    by (simp add: run_ok [OF ok1] run_ok [OF ok2])
qed

theorem rerun_same_decoded_content_witness:
  "fst (run ref_env Map.empty) = Returned () \<and>
   fst (run ref_env (files (snd (run ref_env Map.empty)))) = Returned () \<and>
   map_option ref_qr_decode (files (snd (run ref_env Map.empty)) ''qr.png'') =
     Some (Some ''https://www.thednalabstore.com/order/ORD-2025-001'') \<and>
   map_option ref_qr_decode
       (files (snd (run ref_env (files (snd (run ref_env Map.empty))))) ''qr.png'') =
     Some (Some ''https://www.thednalabstore.com/order/ORD-2025-001'') \<and>
   map_option ref_code128_decode (files (snd (run ref_env Map.empty)) ''barcode.png'') =
     Some (Some ''ORD-2025-001|TS-001'') \<and>
   map_option ref_code128_decode
       (files (snd (run ref_env (files (snd (run ref_env Map.empty))))) ''barcode.png'') =
     Some (Some ''ORD-2025-001|TS-001'')"
  using rerun_same_decoded_content [OF ref_imports_ok ref_qr_ok ref_barcode_ok
      ref_imports_ok ref_qr_ok ref_barcode_ok ref_qr_reads_back ref_qr_reads_back
      ref_code128_reads_back ref_code128_reads_back, of Map.empty]
  by (simp add: qr_url_def barcode_payload_def)

subsection \<open>The frame of a run\<close>

text \<open>
  C8.  Whatever the environment and however the run ends, the files after it are the
  files before it with nothing written, or with \<^verbatim>\<open>qr.png\<close> written, or with \<^verbatim>\<open>qr.png\<close>
  and the barcode file written.  No file is deleted, and a file that is neither
  \<^verbatim>\<open>qr.png\<close> nor named \<^verbatim>\<open>barcode\<close> plus a suffix keeps its content.  In a run that
  gets through, the two targets hold the new images, whatever they held before.
\<close>

theorem only_two_writes:
  "(\<exists>img ext bimg.
      files (snd (run E fs)) = fs \<or>
      files (snd (run E fs)) = fs(''qr.png'' \<mapsto> img) \<or>
      files (snd (run E fs)) = fs(''qr.png'' \<mapsto> img, ''barcode'' @ ext \<mapsto> bimg)) \<and>
   dom fs \<subseteq> dom (files (snd (run E fs))) \<and>
   (\<forall>p. p \<noteq> ''qr.png'' \<and> \<not> prefix ''barcode'' p \<longrightarrow> files (snd (run E fs)) p = fs p) \<and>
   (imports_ok E \<and> qr_ok E qr_url qimg \<and> barcode_ok E barcode_payload x bimg' \<longrightarrow>
      files (snd (run E fs)) = fs(''qr.png'' \<mapsto> qimg, ''barcode'' @ x \<mapsto> bimg'))"
proof -
  obtain img ext bimg where cases:
    "files (snd (run E fs)) = fs \<or>
     files (snd (run E fs)) = fs(''qr.png'' \<mapsto> img) \<or>
     files (snd (run E fs)) = fs(''qr.png'' \<mapsto> img, ''barcode'' @ ext \<mapsto> bimg)"
    using run_files [of E fs] by blast
  then have "dom fs \<subseteq> dom (files (snd (run E fs)))"
    by auto
  moreover have "\<forall>p. p \<noteq> ''qr.png'' \<and> \<not> prefix ''barcode'' p \<longrightarrow> files (snd (run E fs)) p = fs p"
  proof (intro allI impI)
    fix p :: path
    assume p: "p \<noteq> ''qr.png'' \<and> \<not> prefix ''barcode'' p"
    then have "p \<noteq> ''barcode'' @ ext"
      by (metis prefixI)
    with p cases show "files (snd (run E fs)) p = fs p"
      by auto
  qed
  moreover have "imports_ok E \<and> qr_ok E qr_url qimg \<and> barcode_ok E barcode_payload x bimg' \<longrightarrow>
      files (snd (run E fs)) = fs(''qr.png'' \<mapsto> qimg, ''barcode'' @ x \<mapsto> bimg')"
  proof
    assume "imports_ok E \<and> qr_ok E qr_url qimg \<and> barcode_ok E barcode_payload x bimg'"
    then have "run E fs =
        (Returned (), \<lparr>files = fs(''qr.png'' \<mapsto> qimg, ''barcode'' @ x \<mapsto> bimg'),
                       calls = script_calls\<rparr>)"
      using run_ok [of E qimg x bimg' fs] by blast
    then show "files (snd (run E fs)) = fs(''qr.png'' \<mapsto> qimg, ''barcode'' @ x \<mapsto> bimg')"
      by simp
  qed
  ultimately show ?thesis
    using cases by blast
qed

theorem only_two_writes_witness:
  "files (snd (run ref_env [''qr.png'' \<mapsto> QRSymbol ''old'', ''notes.txt'' \<mapsto> QRSymbol ''kept''])) =
     [''qr.png'' \<mapsto> QRSymbol ''https://www.thednalabstore.com/order/ORD-2025-001'',
      ''notes.txt'' \<mapsto> QRSymbol ''kept'',
      ''barcode.png'' \<mapsto> Code128Symbol ''ORD-2025-001|TS-001'']"
proof -
  let ?fs = "[''qr.png'' \<mapsto> QRSymbol ''old'', ''notes.txt'' \<mapsto> QRSymbol ''kept'']"
  have "files (snd (run ref_env ?fs)) =
      ?fs(''qr.png'' \<mapsto> QRSymbol qr_url, ''barcode'' @ ''.png'' \<mapsto> Code128Symbol barcode_payload)"
    using only_two_writes [of ref_env ?fs "QRSymbol qr_url" "''.png''" "Code128Symbol barcode_payload"]
      ref_imports_ok ref_qr_ok ref_barcode_ok
    by blast
  then show ?thesis
    by (auto simp add: qr_url_def barcode_payload_def)
qed

text \<open>
  C10.  The path \<^verbatim>\<open>qr.png\<close> differs from \<^verbatim>\<open>barcode\<close> plus any suffix.  So saving the QR
  image leaves the barcode file as it was, saving the barcode leaves \<^verbatim>\<open>qr.png\<close> as it
  was, and after a run that gets through each of the two files holds its own image.
\<close>

theorem outputs_do_not_collide:
  "''qr.png'' \<noteq> ''barcode'' @ ext \<and>
   files (snd (img_save E img ''qr.png'' s)) (''barcode'' @ ext) = files s (''barcode'' @ ext) \<and>
   files (snd (code_save E code ''barcode'' s)) ''qr.png'' = files s ''qr.png'' \<and>
   (imports_ok E \<and> qr_ok E qr_url qimg \<and> barcode_ok E barcode_payload x bimg \<longrightarrow>
      files (snd (run E fs)) ''qr.png'' = Some qimg \<and>
      files (snd (run E fs)) (''barcode'' @ x) = Some bimg)"
proof -
  have "files (snd (img_save E img ''qr.png'' s)) (''barcode'' @ ext) = files s (''barcode'' @ ext)"
    by (simp add: img_save_def write_file_def lib_call_def then_do_def log_def)
  moreover have "files (snd (code_save E code ''barcode'' s)) ''qr.png'' = files s ''qr.png''"
    by (simp add: code_save_def write_file_def lib_call_def then_do_def log_def
        split: sum.splits prod.splits)
  moreover have "imports_ok E \<and> qr_ok E qr_url qimg \<and> barcode_ok E barcode_payload x bimg \<longrightarrow>
      files (snd (run E fs)) ''qr.png'' = Some qimg \<and>
      files (snd (run E fs)) (''barcode'' @ x) = Some bimg"
  proof
    assume "imports_ok E \<and> qr_ok E qr_url qimg \<and> barcode_ok E barcode_payload x bimg"
    then have "run E fs =
        (Returned (), \<lparr>files = fs(''qr.png'' \<mapsto> qimg, ''barcode'' @ x \<mapsto> bimg),
                       calls = script_calls\<rparr>)"
      using run_ok [of E qimg x bimg fs] by blast
    then show "files (snd (run E fs)) ''qr.png'' = Some qimg \<and>
               files (snd (run E fs)) (''barcode'' @ x) = Some bimg"
      by simp
  qed
  ultimately show ?thesis by simp
qed

theorem outputs_do_not_collide_witness:
  "files (snd (run ref_env [''barcode.png'' \<mapsto> QRSymbol ''old''])) ''qr.png'' =
     Some (QRSymbol ''https://www.thednalabstore.com/order/ORD-2025-001'') \<and>
   files (snd (run ref_env [''barcode.png'' \<mapsto> QRSymbol ''old''])) ''barcode.png'' =
     Some (Code128Symbol ''ORD-2025-001|TS-001'') \<and>
   files (snd (img_save ref_env (QRSymbol ''new'') ''qr.png''
                 \<lparr>files = [''barcode.png'' \<mapsto> QRSymbol ''old''], calls = []\<rparr>)) ''barcode.png'' =
     Some (QRSymbol ''old'')"
proof -
  let ?fs = "[''barcode.png'' \<mapsto> QRSymbol ''old'']"
  note inst = outputs_do_not_collide [of "''.png''" ref_env "QRSymbol ''new''"
      "\<lparr>files = ?fs, calls = []\<rparr>" _ "QRSymbol qr_url" "''.png''" "Code128Symbol barcode_payload" ?fs]
  from inst ref_imports_ok ref_qr_ok ref_barcode_ok show ?thesis
    by (simp add: qr_url_def barcode_payload_def)
qed

subsection \<open>The payload of the barcode\<close>

text \<open>
  C9.  Every character of the payload literal \<^verbatim>\<open>ORD-2025-001|TS-001\<close> is ASCII and so
  supported by Code128.  With a Code128 class that rejects a payload only for an
  unsupported character, the constructor therefore returns a barcode object for it
  whenever class and writer are there, and whatever failure the barcode part of the
  script ends with comes from the class lookup, the writer, the rendering or a
  destination that is not writable: the branch that rejects an unencodable payload is
  never taken.
\<close>

theorem payload_is_encodable:
  "(\<forall>c\<in>set barcode_payload. code128_supported c) \<and>
   (code128_accepts_ascii E \<longrightarrow>
      (\<forall>Code128 w.
         get_barcode_class E ''code128'' = Inr Code128 \<and> image_writer E = Inr w \<longrightarrow>
         (\<exists>code. Code128 barcode_payload w = Inr code)) \<and>
      (\<forall>e. fst (generate_barcode E barcode_payload s) = Raised e \<longrightarrow>
         get_barcode_class E ''code128'' = Inl e \<or> image_writer E = Inl e \<or>
         (\<exists>Code128 w code.
            get_barcode_class E ''code128'' = Inr Code128 \<and> image_writer E = Inr w \<and>
            Code128 barcode_payload w = Inr code \<and>
            (code_render E code = Inl e \<or>
             (\<exists>ext img. code_render E code = Inr (ext, img) \<and>
                \<not> writable E (''barcode'' @ ext) \<and> e = NotWritable (''barcode'' @ ext))))))"
proof -
  have ascii: "\<forall>c\<in>set barcode_payload. code128_supported c"
    by (simp add: barcode_payload_def code128_supported_def)
  have accepted: "\<exists>code. Code128 barcode_payload w = Inr code"
    if "code128_accepts_ascii E" "get_barcode_class E ''code128'' = Inr Code128"
      "image_writer E = Inr w" for Code128 w
  proof (cases "Code128 barcode_payload w")
    case (Inl e)
    with that have "\<exists>c\<in>set barcode_payload. \<not> code128_supported c"
      unfolding code128_accepts_ascii_def by blast
    with ascii show ?thesis by blast
  next
    case (Inr code)
    then show ?thesis by blast
  qed
  have elsewhere:
    "get_barcode_class E ''code128'' = Inl e \<or> image_writer E = Inl e \<or>
     (\<exists>Code128 w code.
        get_barcode_class E ''code128'' = Inr Code128 \<and> image_writer E = Inr w \<and>
        Code128 barcode_payload w = Inr code \<and>
        (code_render E code = Inl e \<or>
         (\<exists>ext img. code_render E code = Inr (ext, img) \<and>
            \<not> writable E (''barcode'' @ ext) \<and> e = NotWritable (''barcode'' @ ext))))"
    if lib: "code128_accepts_ascii E"
      and raised: "fst (generate_barcode E barcode_payload s) = Raised e" for e
  proof (cases "get_barcode_class E ''code128''")
    case (Inl e')
    with raised show ?thesis
      by (simp add: generate_barcode_Raised)
  next
    case cls: (Inr Code128)
    show ?thesis
    proof (cases "image_writer E")
      case (Inl e')
      with raised cls show ?thesis
        by (simp add: generate_barcode_Raised)
    next
      case wr: (Inr w)
      from accepted [OF lib cls wr] obtain code where code: "Code128 barcode_payload w = Inr code"
        by blast
      from raised cls wr code
      have "code_render E code = Inl e \<or>
         (\<exists>ext img. code_render E code = Inr (ext, img) \<and>
            \<not> writable E (''barcode'' @ ext) \<and> e = NotWritable (''barcode'' @ ext))"
        by (simp add: generate_barcode_Raised)
      with cls wr code show ?thesis
        by blast
    qed
  qed
  from ascii accepted elsewhere show ?thesis
    by blast
qed

theorem payload_is_encodable_witness:
  "list_all code128_supported ''ORD-2025-001|TS-001'' \<and>
   ref_Code128 ''ORD-2025-001|TS-001'' ''png'' = Inr (''ORD-2025-001|TS-001'', ''png'')"
proof -
  from payload_is_encodable [of ref_env] ref_code128_accepts_ascii
  have "\<forall>c\<in>set barcode_payload. code128_supported c"
    and "\<forall>Code128 w.
         get_barcode_class ref_env ''code128'' = Inr Code128 \<and> image_writer ref_env = Inr w \<longrightarrow>
         (\<exists>code. Code128 barcode_payload w = Inr code)"
    by blast+
  then have "\<forall>c\<in>set barcode_payload. code128_supported c"
    and "\<exists>code. ref_Code128 barcode_payload ''png'' = Inr code"
    by (simp_all add: ref_env_def)
  then show ?thesis
    by (auto simp add: ref_Code128_def barcode_payload_def list_all_iff split: if_splits)
qed

end
